theory Spec2Isabelle
  imports Complex_Main
begin

section \<open>Values, promises, the host\<close>

text \<open>
  The payload handed to \<^verbatim>\<open>show\<close>, the result handed to \<^verbatim>\<open>hide\<close> and the reasons of
  rejections are JavaScript values of type \<^verbatim>\<open>any\<close>. The model keeps the plain
  (serializable) ones and the \<^verbatim>\<open>TypeError\<close> the engine raises when a value that is not
  a function is called (its message depends on the engine and is left out). Numbers in
  payloads are integers here: no operation of the sheet manager computes with a
  payload, only \<^verbatim>\<open>props || {}\<close> looks at its truthiness.
\<close>

datatype js_value =
    Undefined
  | Null
  | Boolean bool
  | Number int
  | String string
  | Object "(string \<times> js_value) list"
  | TypeError

fun truthy :: "js_value \<Rightarrow> bool" where
  "truthy Undefined = False"
| "truthy Null = False"
| "truthy (Boolean b) = b"
| "truthy (Number n) = (n \<noteq> 0)"
| "truthy (String s) = (s \<noteq> [])"
| "truthy (Object kvs) = True"
| "truthy TypeError = True"

text \<open>\<^verbatim>\<open>props || {}\<close>\<close>

definition or_empty :: "js_value \<Rightarrow> js_value" where
  "or_empty v = (if truthy v then v else Object [])"

text \<open>
  A promise is pending until its first \<^verbatim>\<open>resolve\<close> or \<^verbatim>\<open>reject\<close>; later calls of
  either function do nothing. Promises are identified by a number, the pair
  \<^verbatim>\<open>{ resolve, reject }\<close> of a promise by the number of that promise.
\<close>

datatype promise_state = Pending | Fulfilled js_value | Rejected js_value

text \<open>
  What the program takes from its host. The numbers of the layout and of the gesture
  system are finite doubles, modelled by the reals they denote; comparing them is
  exact. The one piece of arithmetic in the program, \<^verbatim>\<open>SCREEN_HEIGHT * 0.2\<close>, is
  rounded by the engine, so its value is not computed in the reals: it is a given,
  beside \<^verbatim>\<open>SCREEN_HEIGHT\<close> itself (\<^verbatim>\<open>Dimensions.get('window').height\<close>).
  \<open>Object_prototype\<close> lists the names of the members every plain object inherits
  (\<^verbatim>\<open>constructor\<close>, \<^verbatim>\<open>toString\<close>, ...).
\<close>

record host =
  SCREEN_HEIGHT :: real
  SCREEN_HEIGHT_times_0_2 :: real
  Object_prototype :: "string list"

section \<open>The presentation unit: ActionSheet\<close>

text \<open>
  The animation library is outside the repository: an animation that was started is
  recorded in \<open>running\<close> together with what its completion callback will do, and
  \<open>finish\<close> is the event of its completion.
\<close>

datatype animation =
    ParallelOpen nat         \<comment> \<open>slide to 0 and fade to 1 over the given duration, then \<^verbatim>\<open>onOpen?.()\<close>\<close>
  | ParallelClose nat real   \<comment> \<open>slide to the given offset and fade to 0, then the close callback\<close>
  | SpringOpen               \<comment> \<open>\<^verbatim>\<open>Animated.spring(translateY, { toValue: 0 })\<close>, no callback\<close>

text \<open>
  \<^verbatim>\<open>const [isVisible, setIsVisible] = useState(false)\<close>: within one render \<^verbatim>\<open>isVisible\<close>
  and \<^verbatim>\<open>isClosing\<close> are constants, and every function created in that render closes
  over these constants. A setter changes the state of the unit (the fields
  \<open>isVisible\<close> and \<open>isClosing\<close> below); the functions see the change only after the
  next render, which creates them anew. \<open>render_consts\<close> are the constants of one
  render. The unit keeps two of them: \<open>rendered\<close>, the constants of its latest render,
  over which the methods published through the ref (\<^verbatim>\<open>useImperativeHandle\<close> without
  dependencies), the back-button listener and the \<^verbatim>\<open>onPress\<close> of the backdrop close;
  and \<open>panResponder\<close>, the constants of its first render, since the pan responder is
  created once (\<^verbatim>\<open>React.useRef(PanResponder.create(...)).current\<close>). The props of a
  unit are fixed at its mount and no event changes them, so a prop read from the unit
  is the prop of every render.
\<close>

record render_consts =
  r_isVisible :: bool
  r_isClosing :: bool
  r_gestureEnabled :: bool
  r_closeAnimationDuration :: nat

record ActionSheet =
  gestureEnabled :: bool
  closeOnPressBack :: bool
  closeOnTouchBackdrop :: bool
  openAnimationDuration :: nat
  closeAnimationDuration :: nat
  isModal :: bool
  isVisible :: bool
  isClosing :: bool
  rendered :: render_consts
  panResponder :: render_consts
  translateY :: real
  backdropOpacity :: real
  isDragging :: bool
  initialDragY :: real
  running :: "animation list"
  onOpen_calls :: nat
  onClose_calls :: nat

record gestureState =
  dy :: real
  vy :: real
  y0 :: real

definition DEFAULT_ANIMATION_DURATION :: nat where
  "DEFAULT_ANIMATION_DURATION = 300"

text \<open>The constants a render of the unit in its present state has.\<close>

definition consts_now :: "ActionSheet \<Rightarrow> render_consts" where
  "consts_now u = \<lparr> r_isVisible = isVisible u, r_isClosing = isClosing u,
                    r_gestureEnabled = gestureEnabled u,
                    r_closeAnimationDuration = closeAnimationDuration u \<rparr>"

text \<open>React renders the unit again.\<close>

definition render :: "ActionSheet \<Rightarrow> ActionSheet" where
  "render u = u\<lparr> rendered := consts_now u \<rparr>"

text \<open>
  The first render of a unit: \<^verbatim>\<open>useState(false)\<close> twice, the sheet parked below the
  screen, the backdrop transparent. The pan responder is built here.
\<close>

definition mount_ActionSheet ::
  "host \<Rightarrow> bool \<Rightarrow> bool \<Rightarrow> bool \<Rightarrow> nat \<Rightarrow> nat \<Rightarrow> bool \<Rightarrow> ActionSheet" where
  "mount_ActionSheet h ge cb ct od cd im =
     \<lparr> gestureEnabled = ge, closeOnPressBack = cb, closeOnTouchBackdrop = ct,
       openAnimationDuration = od, closeAnimationDuration = cd, isModal = im,
       isVisible = False, isClosing = False,
       rendered = \<lparr> r_isVisible = False, r_isClosing = False,
                    r_gestureEnabled = ge, r_closeAnimationDuration = cd \<rparr>,
       panResponder = \<lparr> r_isVisible = False, r_isClosing = False,
                        r_gestureEnabled = ge, r_closeAnimationDuration = cd \<rparr>,
       translateY = SCREEN_HEIGHT h, backdropOpacity = 0,
       isDragging = False, initialDragY = 0,
       running = [], onOpen_calls = 0, onClose_calls = 0 \<rparr>"

text \<open>\<^verbatim>\<open>close\<close>, \<^verbatim>\<open>open\<close> and \<^verbatim>\<open>isOpen\<close>, as created in the render with constants \<open>c\<close>.\<close>

definition close :: "render_consts \<Rightarrow> host \<Rightarrow> ActionSheet \<Rightarrow> ActionSheet" where
  "close c h u =
     (if \<not> r_isVisible c \<or> r_isClosing c then u
      else u\<lparr> isClosing := True,
              running := running u @
                [ParallelClose (r_closeAnimationDuration c) (SCREEN_HEIGHT h)] \<rparr>)"

definition open_unit :: "render_consts \<Rightarrow> ActionSheet \<Rightarrow> ActionSheet" where
  "open_unit c u =
     (if r_isVisible c \<or> r_isClosing c then u
      else u\<lparr> isVisible := True,
              running := running u @ [ParallelOpen (openAnimationDuration u)] \<rparr>)"

definition isOpen_unit :: "render_consts \<Rightarrow> bool" where
  "isOpen_unit c = (r_isVisible c \<and> \<not> r_isClosing c)"

definition snapToIndex :: "render_consts \<Rightarrow> host \<Rightarrow> int \<Rightarrow> ActionSheet \<Rightarrow> ActionSheet" where
  "snapToIndex c h index u =
     (if index = 0 then u\<lparr> running := running u @ [SpringOpen] \<rparr>
      else close c h u)"

text \<open>
  The back-button listener of the latest render; the result is the unit and what the
  listener returns.
\<close>

definition hardwareBackPress :: "host \<Rightarrow> ActionSheet \<Rightarrow> ActionSheet \<times> bool" where
  "hardwareBackPress h u =
     (if r_isVisible (rendered u) \<and> closeOnPressBack u then (close (rendered u) h u, True)
      else (u, False))"

text \<open>
  The backdrop and the modal are in the output of the latest render only if the unit
  was visible in it (\<^verbatim>\<open>if (!isVisible) return null\<close>).
\<close>

definition backdropPress :: "host \<Rightarrow> ActionSheet \<Rightarrow> ActionSheet" where
  "backdropPress h u =
     (if r_isVisible (rendered u) \<and> closeOnTouchBackdrop u then close (rendered u) h u else u)"

definition onRequestClose :: "host \<Rightarrow> ActionSheet \<Rightarrow> ActionSheet" where
  "onRequestClose h u =
     (if r_isVisible (rendered u) \<and> isModal u then close (rendered u) h u else u)"

subsection \<open>The pan responder\<close>

definition onStartShouldSetPanResponder :: "render_consts \<Rightarrow> bool" where
  "onStartShouldSetPanResponder c = r_gestureEnabled c"

definition onMoveShouldSetPanResponder :: "render_consts \<Rightarrow> gestureState \<Rightarrow> bool" where
  "onMoveShouldSetPanResponder c g = (r_gestureEnabled c \<and> dy g > 0)"

definition onPanResponderGrant :: "gestureState \<Rightarrow> ActionSheet \<Rightarrow> ActionSheet" where
  "onPanResponderGrant g u = u\<lparr> isDragging := True, initialDragY := y0 g \<rparr>"

definition onPanResponderMove :: "gestureState \<Rightarrow> ActionSheet \<Rightarrow> ActionSheet" where
  "onPanResponderMove g u = (if dy g > 0 then u\<lparr> translateY := dy g \<rparr> else u)"

text \<open>
  \<^verbatim>\<open>close\<close> in this callback is the \<^verbatim>\<open>close\<close> the pan responder captured, that of the
  render in which the responder was created.
\<close>

definition onPanResponderRelease :: "host \<Rightarrow> gestureState \<Rightarrow> ActionSheet \<Rightarrow> ActionSheet" where
  "onPanResponderRelease h g u =
     (let u1 = u\<lparr> isDragging := False \<rparr> in
      if dy g > SCREEN_HEIGHT_times_0_2 h \<or> vy g > 0.5 then close (panResponder u1) h u1
      else u1\<lparr> running := running u1 @ [SpringOpen] \<rparr>)"

subsection \<open>Completion of animations\<close>

fun complete :: "animation \<Rightarrow> ActionSheet \<Rightarrow> ActionSheet" where
  "complete (ParallelOpen d) u =
     u\<lparr> translateY := 0, backdropOpacity := 1, onOpen_calls := Suc (onOpen_calls u) \<rparr>"
| "complete (ParallelClose d x) u =
     u\<lparr> translateY := x, backdropOpacity := 0, isVisible := False, isClosing := False,
        onClose_calls := Suc (onClose_calls u) \<rparr>"
| "complete SpringOpen u = u\<lparr> translateY := 0 \<rparr>"

text \<open>The \<open>k\<close>-th running animation ends and its callback runs.\<close>

definition finish :: "nat \<Rightarrow> ActionSheet \<Rightarrow> ActionSheet" where
  "finish k u =
     (if k < length (running u)
      then complete (running u ! k) (u\<lparr> running := take k (running u) @ drop (Suc k) (running u) \<rparr>)
      else u)"

subsection \<open>Events of one unit\<close>

text \<open>
  The pan handlers are attached only if the latest render had output (the unit was
  visible in it) and \<^verbatim>\<open>gestureEnabled\<close>, and a touch becomes a gesture of the responder
  only if the responder claims it.
\<close>

definition pan_delivered :: "ActionSheet \<Rightarrow> bool" where
  "pan_delivered u =
     (r_isVisible (rendered u) \<and> gestureEnabled u \<and>
      onStartShouldSetPanResponder (panResponder u))"

text \<open>
  \<open>Open\<close>, \<open>Close\<close> and \<open>SnapToIndex\<close> are calls through the handle, that is, of the
  methods of the latest render. Several events may follow one another without a
  \<open>Render\<close> between them: calls made in one turn of the event loop.
\<close>

datatype unit_event =
    Open
  | Close
  | SnapToIndex int
  | BackPress
  | BackdropPress
  | RequestClose
  | PanGrant gestureState
  | PanMove gestureState
  | PanRelease gestureState
  | Finish nat
  | Render

fun unit_step :: "host \<Rightarrow> unit_event \<Rightarrow> ActionSheet \<Rightarrow> ActionSheet" where
  "unit_step h Open u = open_unit (rendered u) u"
| "unit_step h Close u = close (rendered u) h u"
| "unit_step h (SnapToIndex i) u = snapToIndex (rendered u) h i u"
| "unit_step h BackPress u = fst (hardwareBackPress h u)"
| "unit_step h BackdropPress u = backdropPress h u"
| "unit_step h RequestClose u = onRequestClose h u"
| "unit_step h (PanGrant g) u = (if pan_delivered u then onPanResponderGrant g u else u)"
| "unit_step h (PanMove g) u = (if pan_delivered u then onPanResponderMove g u else u)"
| "unit_step h (PanRelease g) u = (if pan_delivered u then onPanResponderRelease h g u else u)"
| "unit_step h (Finish k) u = finish k u"
| "unit_step h Render u = render u"

fun unit_run :: "host \<Rightarrow> unit_event list \<Rightarrow> ActionSheet \<Rightarrow> ActionSheet" where
  "unit_run h [] u = u"
| "unit_run h (e # es) u = unit_run h es (unit_step h e u)"

section \<open>The sheet manager\<close>

text \<open>
  \<^verbatim>\<open>registeredSheets\<close>, \<^verbatim>\<open>sheets\<close> and \<^verbatim>\<open>sheetPromises\<close> are plain objects used as
  dictionaries. The entries stored in such an object are its own properties, a map
  from identifiers; reading \<^verbatim>\<open>obj[id]\<close> gives the own entry if there is one, else the
  member of that name every object inherits, if there is one, else \<^verbatim>\<open>undefined\<close>. An
  inherited member is a function or an object: it is truthy and has none of the
  properties the manager reads from an entry. Writing \<^verbatim>\<open>obj[id] = v\<close> is modelled as
  storing an own entry and \<^verbatim>\<open>delete obj[id]\<close> as removing it, for every name (for the
  name \<^verbatim>\<open>__proto__\<close> an engine does otherwise).
\<close>

datatype 'a member = Own 'a | Inherited | Absent

definition js_get :: "host \<Rightarrow> (string \<Rightarrow> 'a option) \<Rightarrow> string \<Rightarrow> 'a member" where
  "js_get h obj i =
     (case obj i of
        Some v \<Rightarrow> Own v
      | None \<Rightarrow> if i \<in> set (Object_prototype h) then Inherited else Absent)"

text \<open>
  A ref object is an address, \<open>refs\<close> gives its \<^verbatim>\<open>current\<close>: \<open>None\<close> for
  \<^verbatim>\<open>null\<close>, otherwise the unit whose handle it holds. The fields \<open>ref\<close> and \<open>isOpen\<close>
  of an entry can be \<^verbatim>\<open>undefined\<close> (\<open>None\<close>): the manager copies them from what
  \<^verbatim>\<open>sheets[id]\<close> gave, which may be an inherited member.
\<close>

type_synonym component = string

record SheetInstance =
  sheetId :: string
  ref :: "nat option"
  props :: js_value
  isOpen :: "bool option"

text \<open>\<^verbatim>\<open>m?.ref\<close>, \<^verbatim>\<open>m?.props\<close> and \<^verbatim>\<open>m?.isOpen\<close> for what \<^verbatim>\<open>sheets[id]\<close> gave.\<close>

fun member_ref :: "SheetInstance member \<Rightarrow> nat option" where
  "member_ref (Own s) = ref s"
| "member_ref Inherited = None"
| "member_ref Absent = None"

fun member_props :: "SheetInstance member \<Rightarrow> js_value" where
  "member_props (Own s) = props s"
| "member_props Inherited = Undefined"
| "member_props Absent = Undefined"

fun member_isOpen :: "SheetInstance member \<Rightarrow> bool option" where
  "member_isOpen (Own s) = isOpen s"
| "member_isOpen Inherited = None"
| "member_isOpen Absent = None"

datatype opener = OpenSheet

datatype closer = CloseSheet

text \<open>
  The two callbacks \<^verbatim>\<open>openSheet\<close> passes to \<^verbatim>\<open>setTimeout\<close>. Each closes over the
  identifier, over \<^verbatim>\<open>sheets\<close> as it was when \<^verbatim>\<open>openSheet\<close> was called, and over
  \<^verbatim>\<open>reject\<close> of the promise under construction.
\<close>

datatype timer =
    OpenAttempt string "string \<Rightarrow> SheetInstance option" nat
  | OpenRetry string "string \<Rightarrow> SheetInstance option" nat

text \<open>
  \<^verbatim>\<open>openSheet\<close> and \<^verbatim>\<open>closeSheet\<close> are created anew whenever \<^verbatim>\<open>sheets\<close> changes, and the
  provider's effect installs the new functions in the global references; a call made
  in a later turn of the event loop therefore reads the current directory, \<open>sheets w\<close>,
  which is also the \<^verbatim>\<open>prev\<close> of its state update. The callbacks a call leaves behind
  in timers keep the directory of the call.
\<close>

record world =
  host :: host
  registeredSheets :: "string \<Rightarrow> component option"
  contextSheetOpener :: "opener option"
  contextSheetCloser :: "closer option"
  sheets :: "string \<Rightarrow> SheetInstance option"
  sheetPromises :: "string \<Rightarrow> nat option"
  promises :: "nat \<Rightarrow> promise_state"
  next_promise :: nat
  refs :: "nat \<Rightarrow> ActionSheet option"
  next_ref :: nat
  timers :: "(nat \<times> timer) list"
  now :: nat

subsection \<open>Promises, refs, timers\<close>

definition new_promise :: "world \<Rightarrow> nat \<times> world" where
  "new_promise w =
     (next_promise w,
      w\<lparr> promises := (promises w)(next_promise w := Pending),
         next_promise := Suc (next_promise w) \<rparr>)"

definition settle :: "nat \<Rightarrow> promise_state \<Rightarrow> world \<Rightarrow> world" where
  "settle p s w =
     (if promises w p = Pending then w\<lparr> promises := (promises w)(p := s) \<rparr> else w)"

definition resolve :: "nat \<Rightarrow> js_value \<Rightarrow> world \<Rightarrow> world" where
  "resolve p v w = settle p (Fulfilled v) w"

definition reject :: "nat \<Rightarrow> js_value \<Rightarrow> world \<Rightarrow> world" where
  "reject p r w = settle p (Rejected r) w"

text \<open>\<^verbatim>\<open>Promise.reject(r)\<close>\<close>

definition Promise_reject :: "js_value \<Rightarrow> world \<Rightarrow> nat \<times> world" where
  "Promise_reject r w = (let (p, w0) = new_promise w in (p, reject p r w0))"

definition createRef :: "world \<Rightarrow> nat \<times> world" where
  "createRef w =
     (next_ref w, w\<lparr> refs := (refs w)(next_ref w := None), next_ref := Suc (next_ref w) \<rparr>)"

text \<open>\<^verbatim>\<open>ref?.current\<close>\<close>

definition current :: "world \<Rightarrow> nat option \<Rightarrow> ActionSheet option" where
  "current w r = (case r of None \<Rightarrow> None | Some a \<Rightarrow> refs w a)"

definition setTimeout :: "timer \<Rightarrow> nat \<Rightarrow> world \<Rightarrow> world" where
  "setTimeout cb ms w = w\<lparr> timers := timers w @ [(now w + ms, cb)] \<rparr>"

text \<open>
  The handle of an ActionSheet: the methods of its latest render. They raise nothing.
\<close>

definition handle_open :: "ActionSheet \<Rightarrow> js_value + ActionSheet" where
  "handle_open u = Inr (open_unit (rendered u) u)"

definition handle_close :: "host \<Rightarrow> ActionSheet \<Rightarrow> js_value + ActionSheet" where
  "handle_close h u = Inr (close (rendered u) h u)"

definition handle_isOpen :: "ActionSheet \<Rightarrow> bool" where
  "handle_isOpen u = isOpen_unit (rendered u)"

subsection \<open>The registry and the instance directory\<close>

definition SheetManager_register :: "string \<Rightarrow> component \<Rightarrow> world \<Rightarrow> world" where
  "SheetManager_register i c w = w\<lparr> registeredSheets := (registeredSheets w)(i \<mapsto> c) \<rparr>"

definition registerSheetInstance :: "string \<Rightarrow> nat \<Rightarrow> world \<Rightarrow> world" where
  "registerSheetInstance i r w =
     (let prev = js_get (host w) (sheets w) i in
      if member_ref prev = Some r then w
      else w\<lparr> sheets := (sheets w)(i \<mapsto>
             \<lparr> sheetId = i, ref = Some r, props = or_empty (member_props prev),
               isOpen = Some (member_isOpen prev = Some True) \<rparr>) \<rparr>)"

definition unregisterSheetInstance :: "string \<Rightarrow> world \<Rightarrow> world" where
  "unregisterSheetInstance i w = w\<lparr> sheets := (sheets w)(i := None) \<rparr>"

definition updateSheetProps :: "string \<Rightarrow> js_value \<Rightarrow> world \<Rightarrow> world" where
  "updateSheetProps i ps w =
     (case js_get (host w) (sheets w) i of
        Absent \<Rightarrow> w
      | existingSheet \<Rightarrow>
          w\<lparr> sheets := (sheets w)(i \<mapsto>
              \<lparr> sheetId = i, ref = member_ref existingSheet, props = ps,
                isOpen = member_isOpen existingSheet \<rparr>) \<rparr>)"

subsection \<open>openSheet\<close>

definition not_registered_msg :: "string \<Rightarrow> js_value" where
  "not_registered_msg i =
     String (''Sheet with id '' @ [CHR 0x22] @ i @ [CHR 0x22] @ '' is not registered.'')"

definition ref_not_available_msg :: "string \<Rightarrow> js_value" where
  "ref_not_available_msg i =
     String (''Failed to open sheet '' @ [CHR 0x22] @ i @ [CHR 0x22] @ ''. Ref is not available.'')"

text \<open>
  The result is the promise \<^verbatim>\<open>openSheet\<close> returns and the world after the synchronous
  part of the call. The timers keep \<open>sheets w\<close>, the directory of the render that
  created this \<^verbatim>\<open>openSheet\<close>, not the directory the update below produces.
\<close>

definition openSheet :: "string \<Rightarrow> js_value \<Rightarrow> world \<Rightarrow> nat \<times> world" where
  "openSheet i ps w =
     (let (p, w0) = new_promise w in
      if js_get (host w) (sheets w) i = Absent \<and> js_get (host w) (registeredSheets w) i = Absent
      then (p, reject p (not_registered_msg i) w0)
      else
        let w1 = w0\<lparr> sheetPromises := (sheetPromises w0)(i \<mapsto> p) \<rparr>;
            w2 = (case js_get (host w1) (sheets w1) i of
                    Absent \<Rightarrow>
                      if js_get (host w1) (registeredSheets w1) i \<noteq> Absent
                      then let (r, w') = createRef w1
                           in w'\<lparr> sheets := (sheets w')(i \<mapsto>
                                \<lparr> sheetId = i, ref = Some r, props = or_empty ps,
                                  isOpen = Some True \<rparr>) \<rparr>
                      else w1
                  | existingSheet \<Rightarrow>
                      w1\<lparr> sheets := (sheets w1)(i \<mapsto>
                           \<lparr> sheetId = i, ref = member_ref existingSheet, props = or_empty ps,
                             isOpen = Some True \<rparr>) \<rparr>)
        in (p, setTimeout (OpenAttempt i (sheets w) p) 50 w2))"

text \<open>
  The body of a timer callback. An exception of \<^verbatim>\<open>open()\<close> in the first callback is
  caught and rejects the promise; in the second callback nothing catches it.
\<close>

fun run_timer :: "timer \<Rightarrow> world \<Rightarrow> world" where
  "run_timer (OpenAttempt i snapshot p) w =
     (let currentSheet = js_get (host w) snapshot i in
      case member_ref currentSheet of
        None \<Rightarrow> setTimeout (OpenRetry i snapshot p) 100 w
      | Some r \<Rightarrow>
          (case refs w r of
             None \<Rightarrow> setTimeout (OpenRetry i snapshot p) 100 w
           | Some u \<Rightarrow>
               (case handle_open u of
                  Inl error \<Rightarrow> reject p error w
                | Inr u' \<Rightarrow> w\<lparr> refs := (refs w)(r \<mapsto> u') \<rparr>)))"
| "run_timer (OpenRetry i snapshot p) w =
     (let latestSheet = js_get (host w) snapshot i in
      case member_ref latestSheet of
        None \<Rightarrow> reject p (ref_not_available_msg i) w
      | Some r \<Rightarrow>
          (case refs w r of
             None \<Rightarrow> reject p (ref_not_available_msg i) w
           | Some u \<Rightarrow>
               (case handle_open u of
                  Inl error \<Rightarrow> w
                | Inr u' \<Rightarrow> w\<lparr> refs := (refs w)(r \<mapsto> u') \<rparr>)))"

text \<open>
  Time passes until the earliest pending timer is due (the first one set, among
  equals), and its callback runs.
\<close>

fun pop_earliest :: "(nat \<times> 'a) list \<Rightarrow> ((nat \<times> 'a) \<times> (nat \<times> 'a) list) option" where
  "pop_earliest [] = None"
| "pop_earliest (t # ts) =
     (case pop_earliest ts of
        None \<Rightarrow> Some (t, [])
      | Some (t', rest) \<Rightarrow> if fst t \<le> fst t' then Some (t, ts) else Some (t', t # rest))"

definition tick :: "world \<Rightarrow> world" where
  "tick w =
     (case pop_earliest (timers w) of
        None \<Rightarrow> w
      | Some ((due, cb), rest) \<Rightarrow> run_timer cb (w\<lparr> timers := rest, now := max (now w) due \<rparr>))"

subsection \<open>closeSheet\<close>

text \<open>
  The \<^verbatim>\<open>try\<close> block of \<^verbatim>\<open>closeSheet\<close>, entered with what \<^verbatim>\<open>sheets[id]\<close> gave. The
  result is \<open>Inr\<close> of the world when the block ends normally, and \<open>Inl\<close> of the
  exception and of the world reached so far when a call in it raises:
  \<^verbatim>\<open>close()\<close> of the handle, or \<^verbatim>\<open>sheetPromises[id].resolve(result)\<close> when what
  \<^verbatim>\<open>sheetPromises[id]\<close> gave is an inherited member, which has no \<^verbatim>\<open>resolve\<close>.
\<close>

definition closeSheet_try ::
  "string \<Rightarrow> js_value \<Rightarrow> SheetInstance member \<Rightarrow> world \<Rightarrow> (js_value \<times> world) + world" where
  "closeSheet_try i result m w =
     (case (case member_ref m of
              None \<Rightarrow> Inr w
            | Some r \<Rightarrow>
                (case refs w r of
                   None \<Rightarrow> Inr w
                 | Some u \<Rightarrow>
                     (case handle_close (host w) u of
                        Inl error \<Rightarrow> Inl error
                      | Inr u' \<Rightarrow> Inr (w\<lparr> refs := (refs w)(r \<mapsto> u') \<rparr>)))) of
        Inl error \<Rightarrow> Inl (error, w)
      | Inr w1 \<Rightarrow>
          let w2 = (case js_get (host w1) (sheets w1) i of
                      Absent \<Rightarrow> w1
                    | existingSheet \<Rightarrow>
                        w1\<lparr> sheets := (sheets w1)(i \<mapsto>
                             \<lparr> sheetId = i, ref = member_ref existingSheet,
                               props = member_props existingSheet, isOpen = Some False \<rparr>) \<rparr>)
          in (case js_get (host w2) (sheetPromises w2) i of
                Absent \<Rightarrow> Inr w2
              | Own p \<Rightarrow>
                  Inr ((resolve p result w2)\<lparr> sheetPromises := (sheetPromises w2)(i := None) \<rparr>)
              | Inherited \<Rightarrow> Inl (TypeError, w2)))"

text \<open>
  \<^verbatim>\<open>closeSheet\<close>: the exception that leaves the call, if any, and the world after the
  call. The \<^verbatim>\<open>catch\<close> block calls \<^verbatim>\<open>sheetPromises[id].reject(error)\<close>, which raises in
  its turn when what \<^verbatim>\<open>sheetPromises[id]\<close> gave is an inherited member; nothing
  catches that.
\<close>

definition closeSheet :: "string \<Rightarrow> js_value \<Rightarrow> world \<Rightarrow> js_value option \<times> world" where
  "closeSheet i result w =
     (case js_get (host w) (sheets w) i of
        Absent \<Rightarrow> (None, w)
      | m \<Rightarrow>
          (case closeSheet_try i result m w of
             Inr w' \<Rightarrow> (None, w')
           | Inl (error, w') \<Rightarrow>
               (case js_get (host w') (sheetPromises w') i of
                  Absent \<Rightarrow> (None, w')
                | Own p \<Rightarrow>
                    (None, (reject p error w')\<lparr> sheetPromises := (sheetPromises w')(i := None) \<rparr>)
                | Inherited \<Rightarrow> (Some TypeError, w'))))"

subsection \<open>The provider and the static API\<close>

definition not_initialized_msg :: js_value where
  "not_initialized_msg = String ''SheetProvider not initialized''"

text \<open>
  Mounting the provider creates an empty directory and an empty promise map and, in
  its effect, installs the two global references. Unmounting clears the references;
  the directory and the promise map of the unmounted provider are gone with it.
\<close>

definition mountProvider :: "world \<Rightarrow> world" where
  "mountProvider w =
     w\<lparr> sheets := (\<lambda>i. None), sheetPromises := (\<lambda>i. None),
        contextSheetOpener := Some OpenSheet, contextSheetCloser := Some CloseSheet \<rparr>"

definition unmountProvider :: "world \<Rightarrow> world" where
  "unmountProvider w =
     w\<lparr> sheets := (\<lambda>i. None), sheetPromises := (\<lambda>i. None),
        contextSheetOpener := None, contextSheetCloser := None \<rparr>"

definition SheetManager_show :: "string \<Rightarrow> js_value \<Rightarrow> world \<Rightarrow> nat \<times> world" where
  "SheetManager_show i ps w =
     (case contextSheetOpener w of
        None \<Rightarrow> Promise_reject not_initialized_msg w
      | Some OpenSheet \<Rightarrow> openSheet i ps w)"

text \<open>
  \<^verbatim>\<open>SheetManager.hide\<close>: the exception that leaves the call, if any, and the world
  after the call; then the two on their own.
\<close>

definition SheetManager_hide_outcome ::
  "string \<Rightarrow> js_value \<Rightarrow> world \<Rightarrow> js_value option \<times> world" where
  "SheetManager_hide_outcome i result w =
     (case contextSheetCloser w of
        None \<Rightarrow> (None, w)
      | Some CloseSheet \<Rightarrow> closeSheet i result w)"

definition SheetManager_hide_throws :: "string \<Rightarrow> js_value \<Rightarrow> world \<Rightarrow> js_value option" where
  "SheetManager_hide_throws i result w = fst (SheetManager_hide_outcome i result w)"

definition SheetManager_hide :: "string \<Rightarrow> js_value \<Rightarrow> world \<Rightarrow> world" where
  "SheetManager_hide i result w = snd (SheetManager_hide_outcome i result w)"

text \<open>The world before anything has been registered or mounted.\<close>

definition initial_world :: "host \<Rightarrow> world" where
  "initial_world h =
     \<lparr> host = h, registeredSheets = (\<lambda>i. None),
       contextSheetOpener = None, contextSheetCloser = None,
       sheets = (\<lambda>i. None), sheetPromises = (\<lambda>i. None),
       promises = (\<lambda>p. Pending), next_promise = 0,
       refs = (\<lambda>r. None), next_ref = 0, timers = [], now = 0 \<rparr>"

subsection \<open>Events\<close>

text \<open>
  What can happen to the manager in one turn of the event loop: a call of the static
  API or of a function the context exposes, a timer, a unit that publishes its handle
  in a ref or withdraws it, an event of the unit behind a ref.
\<close>

datatype event =
    Register string component
  | MountProvider
  | UnmountProvider
  | UseRef
  | RegisterSheetInstance string nat
  | UnregisterSheetInstance string
  | UpdateSheetProps string js_value
  | Show string js_value
  | Hide string js_value
  | Tick
  | SetHandle nat "ActionSheet option"
  | UnitEvent nat unit_event

fun step :: "event \<Rightarrow> world \<Rightarrow> world" where
  "step (Register i c) w = SheetManager_register i c w"
| "step MountProvider w = mountProvider w"
| "step UnmountProvider w = unmountProvider w"
| "step UseRef w = snd (createRef w)"
| "step (RegisterSheetInstance i r) w = registerSheetInstance i r w"
| "step (UnregisterSheetInstance i) w = unregisterSheetInstance i w"
| "step (UpdateSheetProps i ps) w = updateSheetProps i ps w"
| "step (Show i ps) w = snd (SheetManager_show i ps w)"
| "step (Hide i result) w = SheetManager_hide i result w"
| "step Tick w = tick w"
| "step (SetHandle r u) w = w\<lparr> refs := (refs w)(r := u) \<rparr>"
| "step (UnitEvent r e) w =
     (case refs w r of
        None \<Rightarrow> w
      | Some u \<Rightarrow> w\<lparr> refs := (refs w)(r \<mapsto> unit_step (host w) e u) \<rparr>)"

fun run :: "event list \<Rightarrow> world \<Rightarrow> world" where
  "run [] w = w"
| "run (e # es) w = run es (step e w)"

subsection \<open>Example worlds\<close>

text \<open>
  A host with a window 800 high, for which the engine computes
  \<^verbatim>\<open>SCREEN_HEIGHT * 0.2\<close> as 160, and with the members of \<^verbatim>\<open>Object.prototype\<close>.
\<close>

definition example_host :: host where
  "example_host =
     \<lparr> SCREEN_HEIGHT = 800, SCREEN_HEIGHT_times_0_2 = 160,
       Object_prototype =
         [''constructor'', ''hasOwnProperty'', ''isPrototypeOf'', ''propertyIsEnumerable'',
          ''toLocaleString'', ''toString'', ''valueOf'', ''__proto__'',
          ''__defineGetter__'', ''__defineSetter__'', ''__lookupGetter__'',
          ''__lookupSetter__''] \<rparr>"

text \<open>
  A unit with the default props, freshly mounted; the same unit the moment after
  \<^verbatim>\<open>open()\<close>, and when it has rendered again and its opening animation has ended.
\<close>

definition example_unit :: ActionSheet where
  "example_unit =
     mount_ActionSheet example_host True True True
       DEFAULT_ANIMATION_DURATION DEFAULT_ANIMATION_DURATION True"

definition example_opening :: ActionSheet where
  "example_opening = unit_run example_host [Open] example_unit"

definition example_open :: ActionSheet where
  "example_open = unit_run example_host [Open, Render, Finish 0] example_unit"

text \<open>
  A world in which sheet \<^verbatim>\<open>s1\<close> is registered, the provider is mounted, and the wrapper
  of \<^verbatim>\<open>s1\<close> has registered its ref, which holds the handle of the unit; then the
  world after \<^verbatim>\<open>show('s1', { payload: { x: 1 } })\<close>.
\<close>

definition example_world :: world where
  "example_world =
     run [Register ''s1'' ''F'', MountProvider, UseRef, RegisterSheetInstance ''s1'' 0,
          SetHandle 0 (Some example_unit)] (initial_world example_host)"

definition example_shown :: world where
  "example_shown =
     run [Register ''s1'' ''F'', MountProvider, UseRef, RegisterSheetInstance ''s1'' 0,
          SetHandle 0 (Some example_unit),
          Show ''s1'' (Object [(''payload'', Object [(''x'', Number 1)])])]
       (initial_world example_host)"

text \<open>The same two worlds when the registered component never publishes a handle.\<close>

definition example_world_no_handle :: world where
  "example_world_no_handle =
     run [Register ''s1'' ''F'', MountProvider, UseRef, RegisterSheetInstance ''s1'' 0]
       (initial_world example_host)"

definition example_shown_no_handle :: world where
  "example_shown_no_handle = snd (SheetManager_show ''s1'' Undefined example_world_no_handle)"

text \<open>
  A component puts \<^verbatim>\<open>x\<close>, which is not registered, into the directory through the
  context (\<^verbatim>\<open>useSheetManager().registerSheetInstance\<close>), \<^verbatim>\<open>x\<close> is shown, and the
  component takes its entry out again.
\<close>

definition example_orphan_world :: world where
  "example_orphan_world =
     run [MountProvider, UseRef, RegisterSheetInstance ''x'' 0, Show ''x'' Undefined,
          UnregisterSheetInstance ''x''] (initial_world example_host)"

subsection \<open>Predicates\<close>

text \<open>
  What both timer callbacks test, negated: \<^verbatim>\<open>!(sheets[id]?.ref?.current)\<close> for the
  directory \<open>snapshot\<close> the callback holds and the refs of the world in which it runs.
\<close>

definition handle_unavailable :: "(string \<Rightarrow> SheetInstance option) \<Rightarrow> string \<Rightarrow> world \<Rightarrow> bool" where
  "handle_unavailable snapshot i w =
     (current w (member_ref (js_get (host w) snapshot i)) = None)"

text \<open>
  Of every world reached from the initial one: the promises in the promise map have
  been created, and no promise is stored under two identifiers.
\<close>

definition promises_inv :: "world \<Rightarrow> bool" where
  "promises_inv w =
     ((\<forall>j p. sheetPromises w j = Some p \<longrightarrow> p < next_promise w) \<and>
      (\<forall>j k p. sheetPromises w j = Some p \<longrightarrow> sheetPromises w k = Some p \<longrightarrow> j = k))"

text \<open>A promise that was created and whose pair is no longer in the promise map.\<close>

definition orphaned :: "nat \<Rightarrow> world \<Rightarrow> bool" where
  "orphaned p w = (p < next_promise w \<and> (\<forall>j. sheetPromises w j \<noteq> Some p))"

section \<open>Properties of the sheet manager\<close>

lemmas manager_defs =
  SheetManager_register_def mountProvider_def unmountProvider_def createRef_def
  registerSheetInstance_def unregisterSheetInstance_def updateSheetProps_def
  SheetManager_show_def SheetManager_hide_def SheetManager_hide_throws_def
  SheetManager_hide_outcome_def openSheet_def closeSheet_def closeSheet_try_def
  new_promise_def settle_def resolve_def reject_def Promise_reject_def setTimeout_def
  tick_def handle_open_def handle_close_def handle_isOpen_def initial_world_def js_get_def
  current_def example_host_def

lemmas unit_defs =
  mount_ActionSheet_def close_def open_unit_def consts_now_def render_def isOpen_unit_def
  snapToIndex_def hardwareBackPress_def backdropPress_def onRequestClose_def
  onPanResponderGrant_def onPanResponderMove_def onPanResponderRelease_def finish_def
  pan_delivered_def onStartShouldSetPanResponder_def DEFAULT_ANIMATION_DURATION_def
  handle_isOpen_def example_host_def

subsection \<open>The example worlds, evaluated\<close>

lemma example_world_sheets:
  "sheets example_world =
     (\<lambda>i. None)(''s1'' \<mapsto>
       \<lparr> sheetId = ''s1'', ref = Some 0, props = Object [], isOpen = Some False \<rparr>)"
  by (simp add: example_world_def manager_defs or_empty_def)

lemma example_world_fields:
  "contextSheetOpener example_world = Some OpenSheet"
  "contextSheetCloser example_world = Some CloseSheet"
  "registeredSheets example_world = (\<lambda>i. None)(''s1'' \<mapsto> ''F'')"
  "sheetPromises example_world = (\<lambda>i. None)"
  "refs example_world 0 = Some example_unit"
  "next_promise example_world = 0"
  "timers example_world = []"
  "now example_world = 0"
  "host example_world = example_host"
  by (simp_all add: example_world_def manager_defs or_empty_def)

lemma example_shown_fields:
  "contextSheetOpener example_shown = Some OpenSheet"
  "contextSheetCloser example_shown = Some CloseSheet"
  "registeredSheets example_shown ''s1'' = Some ''F''"
  "sheets example_shown ''s1'' =
     Some \<lparr> sheetId = ''s1'', ref = Some 0,
            props = Object [(''payload'', Object [(''x'', Number 1)])], isOpen = Some True \<rparr>"
  "sheetPromises example_shown ''s1'' = Some 0"
  "promises example_shown 0 = Pending"
  "next_promise example_shown = 1"
  by (simp_all add: example_shown_def manager_defs or_empty_def)

lemma example_world_no_handle_fields:
  "contextSheetOpener example_world_no_handle = Some OpenSheet"
  "registeredSheets example_world_no_handle ''s1'' = Some ''F''"
  "sheets example_world_no_handle =
     (\<lambda>i. None)(''s1'' \<mapsto>
       \<lparr> sheetId = ''s1'', ref = Some 0, props = Object [], isOpen = Some False \<rparr>)"
  "refs example_world_no_handle 0 = None"
  "timers example_world_no_handle = []"
  "next_promise example_world_no_handle = 0"
  "now example_world_no_handle = 0"
  "host example_world_no_handle = example_host"
  by (simp_all add: example_world_no_handle_def manager_defs or_empty_def)

lemma example_shown_no_handle_fields:
  "contextSheetCloser example_shown_no_handle = Some CloseSheet"
  "sheets example_shown_no_handle ''s1'' =
     Some \<lparr> sheetId = ''s1'', ref = Some 0, props = Object [], isOpen = Some True \<rparr>"
  "sheetPromises example_shown_no_handle ''s1'' = Some 0"
  "promises example_shown_no_handle 0 = Pending"
  "refs example_shown_no_handle 0 = None"
  by (simp_all add: example_shown_no_handle_def example_world_no_handle_def manager_defs
      or_empty_def)

subsection \<open>show of an unknown identifier\<close>

text \<open>
  For an identifier that \<^verbatim>\<open>sheets[id]\<close> and \<^verbatim>\<open>registeredSheets[id]\<close> both give
  \<^verbatim>\<open>undefined\<close> for, \<^verbatim>\<open>show(id)\<close> returns a promise that is rejected at once, and the
  only change of the world is this new, settled promise.
\<close>

lemma show_unknown_rejects:
  assumes "js_get (host w) (sheets w) i = Absent"
      and "js_get (host w) (registeredSheets w) i = Absent"
  shows "SheetManager_show i ps w =
           (next_promise w,
            w\<lparr> promises := (promises w)(next_promise w :=
                   Rejected (if contextSheetOpener w = None
                             then String ''SheetProvider not initialized''
                             else String (''Sheet with id '' @ [CHR 0x22] @ i @ [CHR 0x22] @
                                          '' is not registered.''))),
               next_promise := Suc (next_promise w) \<rparr>)"
  using assms
  by (cases "contextSheetOpener w")
     (auto simp add: SheetManager_show_def Promise_reject_def openSheet_def new_promise_def
        reject_def settle_def not_initialized_msg_def not_registered_msg_def
        split: opener.splits)

text \<open>
  C2 does not hold of the code for an identifier that names an inherited member. The
  identifier \<^verbatim>\<open>constructor\<close> is neither in the directory nor in the registry of the
  example world, yet \<^verbatim>\<open>sheets['constructor']\<close> is truthy, the registration check lets
  \<^verbatim>\<open>show('constructor')\<close> through: the returned promise is pending, its pair is stored
  in the promise map, a directory entry is written and a timer is set; the promise is
  rejected only by the retry, with the message of the unavailable ref.
\<close>

theorem show_inherited_name_passes_check:
  "sheets example_world ''constructor'' = None \<and>
   registeredSheets example_world ''constructor'' = None \<and>
   contextSheetOpener example_world = Some OpenSheet \<and>
   fst (SheetManager_show ''constructor'' Undefined example_world) = 0 \<and>
   promises (snd (SheetManager_show ''constructor'' Undefined example_world)) 0 = Pending \<and>
   sheetPromises (snd (SheetManager_show ''constructor'' Undefined example_world))
     ''constructor'' = Some 0 \<and>
   sheets (snd (SheetManager_show ''constructor'' Undefined example_world)) ''constructor'' =
     Some \<lparr> sheetId = ''constructor'', ref = None, props = Object [], isOpen = Some True \<rparr> \<and>
   timers (snd (SheetManager_show ''constructor'' Undefined example_world)) =
     [(50, OpenAttempt ''constructor'' (sheets example_world) 0)] \<and>
   promises (tick (snd (SheetManager_show ''constructor'' Undefined example_world))) 0 =
     Pending \<and>
   promises (tick (tick (snd (SheetManager_show ''constructor'' Undefined example_world)))) 0 =
     Rejected (String (''Failed to open sheet '' @ [CHR 0x22] @ ''constructor'' @ [CHR 0x22] @
                       ''. Ref is not available.''))"
  by (simp add: example_world_sheets example_world_fields SheetManager_show_def openSheet_def
      new_promise_def setTimeout_def js_get_def or_empty_def tick_def reject_def settle_def
      ref_not_available_msg_def example_host_def)

subsection \<open>The provider is not mounted\<close>

text \<open>
  C8. While the global opener is \<^verbatim>\<open>null\<close>, \<^verbatim>\<open>SheetManager.show(id)\<close> returns a promise
  rejected with \<^verbatim>\<open>'SheetProvider not initialized'\<close>; the only change of the world is
  this new, settled promise: registry, directory, promise map, refs and timers are
  untouched. While the global closer is \<^verbatim>\<open>null\<close>, \<^verbatim>\<open>SheetManager.hide(id)\<close> leaves the
  world as it is.
\<close>

theorem provider_not_initialized:
  "(contextSheetOpener w = None \<longrightarrow>
      SheetManager_show i ps w =
        (next_promise w,
         w\<lparr> promises := (promises w)(next_promise w :=
                Rejected (String ''SheetProvider not initialized'')),
            next_promise := Suc (next_promise w) \<rparr>)) \<and>
   (contextSheetCloser w = None \<longrightarrow> SheetManager_hide i result w = w)"
  by (simp add: SheetManager_show_def SheetManager_hide_def SheetManager_hide_outcome_def
      Promise_reject_def new_promise_def reject_def settle_def not_initialized_msg_def)

theorem provider_not_initialized_witness:
  "contextSheetOpener (initial_world example_host) = None \<and>
   contextSheetCloser (initial_world example_host) = None \<and>
   fst (SheetManager_show ''s1'' Undefined (initial_world example_host)) = 0 \<and>
   promises (snd (SheetManager_show ''s1'' Undefined (initial_world example_host))) 0 =
     Rejected (String ''SheetProvider not initialized'') \<and>
   sheets (snd (SheetManager_show ''s1'' Undefined (initial_world example_host))) ''s1'' = None \<and>
   SheetManager_hide ''s1'' Undefined (initial_world example_host) = initial_world example_host"
proof -
  have h: "contextSheetOpener (initial_world example_host) = None"
          "contextSheetCloser (initial_world example_host) = None"
    by (simp_all add: initial_world_def)
  have n: "next_promise (initial_world example_host) = 0"
          "sheets (initial_world example_host) ''s1'' = None"
    by (simp_all add: initial_world_def)
  show ?thesis
    using h n
      provider_not_initialized [of "initial_world example_host" "''s1''" Undefined Undefined]
    by simp
qed

subsection \<open>hide without a directory entry\<close>

text \<open>
  For an identifier that \<^verbatim>\<open>sheets[id]\<close> gives \<^verbatim>\<open>undefined\<close> for, \<^verbatim>\<open>hide(id, result)\<close>
  raises nothing and leaves the world as it is.
\<close>

lemma hide_unknown_noop:
  "js_get (host w) (sheets w) i = Absent \<Longrightarrow>
     SheetManager_hide_outcome i result w = (None, w)"
  by (simp add: SheetManager_hide_outcome_def closeSheet_def split: option.splits closer.splits)

text \<open>
  C4 does not hold of the code for an identifier that names an inherited member. The
  identifier \<^verbatim>\<open>constructor\<close> has no entry in the directory of the example world, yet
  \<^verbatim>\<open>sheets['constructor']\<close> is truthy and \<^verbatim>\<open>hide('constructor')\<close> passes the first
  check: it writes a directory entry, and it raises a \<^verbatim>\<open>TypeError\<close>, from
  \<^verbatim>\<open>sheetPromises[id].resolve(result)\<close> and then, in the \<^verbatim>\<open>catch\<close> block, from
  \<^verbatim>\<open>sheetPromises[id].reject(error)\<close>, which nothing catches.
\<close>

theorem hide_inherited_name_throws:
  "sheets example_world ''constructor'' = None \<and>
   contextSheetCloser example_world = Some CloseSheet \<and>
   SheetManager_hide_throws ''constructor'' Undefined example_world = Some TypeError \<and>
   sheets (SheetManager_hide ''constructor'' Undefined example_world) ''constructor'' =
     Some \<lparr> sheetId = ''constructor'', ref = None, props = Undefined, isOpen = Some False \<rparr> \<and>
   SheetManager_hide ''constructor'' Undefined example_world \<noteq> example_world"
proof -
  have d: "sheets example_world ''constructor'' = None"
    by (simp add: example_world_sheets)
  have s: "sheets (SheetManager_hide ''constructor'' Undefined example_world) ''constructor'' =
     Some \<lparr> sheetId = ''constructor'', ref = None, props = Undefined, isOpen = Some False \<rparr>"
    by (simp add: example_world_sheets example_world_fields SheetManager_hide_def
        SheetManager_hide_outcome_def closeSheet_def closeSheet_try_def js_get_def
        example_host_def)
  have t: "SheetManager_hide_throws ''constructor'' Undefined example_world = Some TypeError"
    by (simp add: example_world_sheets example_world_fields SheetManager_hide_throws_def
        SheetManager_hide_outcome_def closeSheet_def closeSheet_try_def js_get_def
        example_host_def)
  from d s have "SheetManager_hide ''constructor'' Undefined example_world \<noteq> example_world"
    by auto
  with d s t show ?thesis by (simp add: example_world_fields)
qed

subsection \<open>hide after show\<close>

text \<open>
  After a \<^verbatim>\<open>show\<close> of an identifier that is in the directory or in the registry, the
  returned promise is pending, its pair is the one stored for the identifier, and the
  directory has an open entry with the given props.
\<close>

lemma show_stores_pending:
  assumes "contextSheetOpener w = Some OpenSheet"
      and "sheets w i \<noteq> None \<or> registeredSheets w i \<noteq> None"
  shows "fst (SheetManager_show i ps w) = next_promise w \<and>
         sheetPromises (snd (SheetManager_show i ps w)) i = Some (next_promise w) \<and>
         promises (snd (SheetManager_show i ps w)) (next_promise w) = Pending \<and>
         (\<exists>e. sheets (snd (SheetManager_show i ps w)) i = Some e \<and> isOpen e = Some True \<and>
              props e = or_empty ps)"
  using assms
  by (auto simp add: SheetManager_show_def openSheet_def new_promise_def setTimeout_def
      createRef_def js_get_def Let_def split: option.splits member.splits if_splits)

lemma hide_of_own_pair:
  assumes "contextSheetCloser v = Some CloseSheet" and "sheets v i \<noteq> None"
      and "sheetPromises v i = Some p" and "promises v p = Pending"
  shows "promises (SheetManager_hide i R v) p = Fulfilled R \<and>
         sheetPromises (SheetManager_hide i R v) i = None"
  using assms
  by (auto simp add: SheetManager_hide_def SheetManager_hide_outcome_def closeSheet_def
      closeSheet_try_def handle_close_def js_get_def resolve_def settle_def Let_def
      split: option.splits)

text \<open>
  C1. Let the provider be mounted. If \<open>i\<close> has a directory entry and, in the promise
  map, the pair of a promise \<open>p\<close> that is still pending, then \<^verbatim>\<open>hide(i, R)\<close> fulfils
  \<open>p\<close> with exactly \<open>R\<close>, for every value \<open>R\<close> and so for \<^verbatim>\<open>undefined\<close>, and removes
  the entry of \<open>i\<close> from the promise map. The promise that \<^verbatim>\<open>show(i, P)\<close> returns for
  a known identifier is such a promise: it is pending, its pair is stored for \<open>i\<close>,
  \<open>i\<close> has a directory entry, and \<^verbatim>\<open>hide(i, R)\<close> after that \<^verbatim>\<open>show\<close> fulfils it
  with \<open>R\<close>.
\<close>

theorem hide_resolves_pending:
  assumes "contextSheetCloser w = Some CloseSheet"
  shows "(sheets w i \<noteq> None \<longrightarrow> sheetPromises w i = Some p \<longrightarrow> promises w p = Pending \<longrightarrow>
            promises (SheetManager_hide i R w) p = Fulfilled R \<and>
            sheetPromises (SheetManager_hide i R w) i = None) \<and>
         (contextSheetOpener w = Some OpenSheet \<longrightarrow>
          (sheets w i \<noteq> None \<or> registeredSheets w i \<noteq> None) \<longrightarrow>
            (let q = fst (SheetManager_show i P w); w1 = snd (SheetManager_show i P w)
             in promises w1 q = Pending \<and> sheetPromises w1 i = Some q \<and> sheets w1 i \<noteq> None \<and>
                promises (SheetManager_hide i R w1) q = Fulfilled R \<and>
                sheetPromises (SheetManager_hide i R w1) i = None))"
proof -
  have after_show:
    "promises w1 q = Pending \<and> sheetPromises w1 i = Some q \<and> sheets w1 i \<noteq> None \<and>
     promises (SheetManager_hide i R w1) q = Fulfilled R \<and>
     sheetPromises (SheetManager_hide i R w1) i = None"
    if op: "contextSheetOpener w = Some OpenSheet"
      and known: "sheets w i \<noteq> None \<or> registeredSheets w i \<noteq> None"
      and q: "q = fst (SheetManager_show i P w)" and w1: "w1 = snd (SheetManager_show i P w)"
    for q w1
  proof -
    from show_stores_pending [OF op known, of P]
    have s: "promises w1 q = Pending" "sheetPromises w1 i = Some q" "sheets w1 i \<noteq> None"
      by (auto simp add: q w1)
    have c: "contextSheetCloser w1 = Some CloseSheet"
      using assms op known
      by (auto simp add: w1 SheetManager_show_def openSheet_def new_promise_def setTimeout_def
          createRef_def js_get_def Let_def split: option.splits member.splits if_splits)
    from hide_of_own_pair [OF c s(3,2,1)] s show ?thesis by simp
  qed
  show ?thesis
    unfolding Let_def using hide_of_own_pair [OF assms] after_show by blast
qed

theorem hide_resolves_pending_witness:
  "contextSheetCloser example_shown = Some CloseSheet \<and>
   sheets example_shown ''s1'' =
     Some \<lparr> sheetId = ''s1'', ref = Some 0,
            props = Object [(''payload'', Object [(''x'', Number 1)])], isOpen = Some True \<rparr> \<and>
   sheetPromises example_shown ''s1'' = Some 0 \<and>
   promises example_shown 0 = Pending \<and>
   promises (SheetManager_hide ''s1'' (Object [(''ok'', Boolean True)]) example_shown) 0 =
     Fulfilled (Object [(''ok'', Boolean True)]) \<and>
   promises (SheetManager_hide ''s1'' Undefined example_shown) 0 = Fulfilled Undefined \<and>
   sheetPromises (SheetManager_hide ''s1'' Undefined example_shown) ''s1'' = None \<and>
   contextSheetOpener example_world = Some OpenSheet \<and>
   registeredSheets example_world ''s1'' = Some ''F'' \<and>
   fst (SheetManager_show ''s1'' (Number 3) example_world) = 0 \<and>
   promises (SheetManager_hide ''s1'' Null (snd (SheetManager_show ''s1'' (Number 3) example_world)))
     0 = Fulfilled Null"
proof -
  have c: "contextSheetCloser example_shown = Some CloseSheet"
          "contextSheetCloser example_world = Some CloseSheet"
    by (simp_all add: example_shown_fields example_world_fields)
  have h: "sheets example_shown ''s1'' \<noteq> None"
          "sheetPromises example_shown ''s1'' = Some 0"
          "promises example_shown 0 = Pending"
    by (simp_all add: example_shown_fields)
  have k: "contextSheetOpener example_world = Some OpenSheet"
          "sheets example_world ''s1'' \<noteq> None \<or> registeredSheets example_world ''s1'' \<noteq> None"
    by (simp_all add: example_world_fields)
  have q: "fst (SheetManager_show ''s1'' (Number 3) example_world) = 0"
    using show_stores_pending [OF k, of "Number 3"] by (simp add: example_world_fields)
  show ?thesis
    using c h k q
      hide_resolves_pending [OF c(1), of "''s1''" 0 "Object [(''ok'', Boolean True)]" Undefined]
      hide_resolves_pending [OF c(1), of "''s1''" 0 Undefined Undefined]
      hide_resolves_pending [OF c(2), of "''s1''" 0 Null "Number 3"]
    unfolding Let_def by (simp add: example_shown_fields example_world_fields)
qed

subsection \<open>hide while the handle is null\<close>

text \<open>
  C9. Let the provider be mounted and let the directory entry of \<open>i\<close> have no handle:
  \<^verbatim>\<open>ref.current\<close> is \<^verbatim>\<open>null\<close> (or the entry has no ref at all). Then \<^verbatim>\<open>hide(i, R)\<close> still
  sets \<open>isOpen\<close> of the entry to false (ref and props kept), still fulfils the pending
  promise of \<open>i\<close>, if there is one, with \<open>R\<close>, and removes the pair from the promise
  map; no unit is touched, since the call of \<^verbatim>\<open>close()\<close> is the only step skipped.
\<close>

theorem hide_with_null_handle:
  assumes "contextSheetCloser w = Some CloseSheet"
      and "sheets w i = Some s"
      and "current w (ref s) = None"
  shows "sheets (SheetManager_hide i R w) =
           (sheets w)(i \<mapsto> \<lparr> sheetId = i, ref = ref s, props = props s, isOpen = Some False \<rparr>) \<and>
         refs (SheetManager_hide i R w) = refs w \<and>
         sheetPromises (SheetManager_hide i R w) = (sheetPromises w)(i := None) \<and>
         (\<forall>p. sheetPromises w i = Some p \<longrightarrow> promises w p = Pending \<longrightarrow>
              promises (SheetManager_hide i R w) p = Fulfilled R) \<and>
         (sheetPromises w i = None \<longrightarrow> promises (SheetManager_hide i R w) = promises w)"
  using assms
  by (auto simp add: SheetManager_hide_def SheetManager_hide_outcome_def closeSheet_def
      closeSheet_try_def js_get_def current_def resolve_def settle_def Let_def
      split: option.splits)

theorem hide_with_null_handle_witness:
  "contextSheetCloser example_shown_no_handle = Some CloseSheet \<and>
   sheets example_shown_no_handle ''s1'' =
     Some \<lparr> sheetId = ''s1'', ref = Some 0, props = Object [], isOpen = Some True \<rparr> \<and>
   refs example_shown_no_handle 0 = None \<and>
   sheetPromises example_shown_no_handle ''s1'' = Some 0 \<and>
   promises example_shown_no_handle 0 = Pending \<and>
   sheets (SheetManager_hide ''s1'' (Number 7) example_shown_no_handle) ''s1'' =
     Some \<lparr> sheetId = ''s1'', ref = Some 0, props = Object [], isOpen = Some False \<rparr> \<and>
   promises (SheetManager_hide ''s1'' (Number 7) example_shown_no_handle) 0 =
     Fulfilled (Number 7) \<and>
   sheetPromises (SheetManager_hide ''s1'' (Number 7) example_shown_no_handle) ''s1'' = None"
proof -
  have h: "contextSheetCloser example_shown_no_handle = Some CloseSheet"
          "sheets example_shown_no_handle ''s1'' =
             Some \<lparr> sheetId = ''s1'', ref = Some 0, props = Object [], isOpen = Some True \<rparr>"
          "current example_shown_no_handle
             (ref \<lparr> sheetId = ''s1'', ref = Some 0, props = Object [], isOpen = Some True \<rparr>) =
           None"
    by (simp_all add: example_shown_no_handle_fields current_def)
  show ?thesis
    using h hide_with_null_handle [OF h, of "Number 7"]
    by (simp add: example_shown_no_handle_fields)
qed

subsection \<open>What the events leave alone\<close>

lemma run_timer_frame:
  "sheetPromises (run_timer t w) = sheetPromises w"
  "next_promise (run_timer t w) = next_promise w"
  "sheets (run_timer t w) = sheets w"
  by (cases t; simp add: setTimeout_def reject_def settle_def handle_open_def Let_def
      split: option.splits)+

lemma tick_frame:
  "sheetPromises (tick w) = sheetPromises w"
  "next_promise (tick w) = next_promise w"
  "sheets (tick w) = sheets w"
  by (simp_all add: tick_def run_timer_frame split: option.splits prod.splits)

lemma show_frame:
  "sheetPromises (snd (SheetManager_show i ps w)) j = Some p \<Longrightarrow>
     sheetPromises w j = Some p \<or> (j = i \<and> p = next_promise w)"
  "next_promise (snd (SheetManager_show i ps w)) = Suc (next_promise w)"
  by (auto simp add: SheetManager_show_def Promise_reject_def openSheet_def new_promise_def
      reject_def settle_def setTimeout_def createRef_def Let_def
      split: option.splits opener.splits member.splits if_splits)

lemma hide_frame:
  "sheetPromises (SheetManager_hide i r w) j = Some p \<Longrightarrow> sheetPromises w j = Some p"
  "next_promise (SheetManager_hide i r w) = next_promise w"
  by (auto simp add: SheetManager_hide_def SheetManager_hide_outcome_def closeSheet_def
      closeSheet_try_def handle_close_def resolve_def reject_def settle_def Let_def
      split: option.splits closer.splits member.splits sum.splits if_splits)

lemma step_frame:
  "sheetPromises (step e w) j = Some p \<Longrightarrow>
     sheetPromises w j = Some p \<or> p = next_promise w"
  "next_promise w \<le> next_promise (step e w)"
proof -
  show "sheetPromises (step e w) j = Some p \<Longrightarrow>
     sheetPromises w j = Some p \<or> p = next_promise w"
    by (cases e)
       (auto simp add: SheetManager_register_def mountProvider_def unmountProvider_def
          createRef_def registerSheetInstance_def unregisterSheetInstance_def
          updateSheetProps_def tick_frame Let_def
          dest: show_frame(1) hide_frame(1) split: option.splits member.splits if_splits)
  show "next_promise w \<le> next_promise (step e w)"
    by (cases e)
       (auto simp add: SheetManager_register_def mountProvider_def unmountProvider_def
          createRef_def registerSheetInstance_def unregisterSheetInstance_def
          updateSheetProps_def tick_frame show_frame(2) hide_frame(2) Let_def
          split: option.splits member.splits if_splits)
qed

subsection \<open>Promises in the promise map\<close>

lemma promises_inv_initial: "promises_inv (initial_world h)"
  by (simp add: promises_inv_def initial_world_def)

lemma promises_inv_step:
  assumes inv: "promises_inv w"
  shows "promises_inv (step e w)"
proof (cases e)
  case (Show i ps)
  show ?thesis
    unfolding Show promises_inv_def step.simps
  proof (intro conjI allI impI)
    fix j p assume "sheetPromises (snd (SheetManager_show i ps w)) j = Some p"
    from show_frame(1) [OF this] inv
    show "p < next_promise (snd (SheetManager_show i ps w))"
      by (auto simp add: show_frame(2) promises_inv_def less_Suc_eq)
  next
    fix j k p
    assume a: "sheetPromises (snd (SheetManager_show i ps w)) j = Some p"
       and b: "sheetPromises (snd (SheetManager_show i ps w)) k = Some p"
    show "j = k"
    proof (cases "p = next_promise w")
      case True
      with inv have "sheetPromises w j \<noteq> Some p" "sheetPromises w k \<noteq> Some p"
        by (auto simp add: promises_inv_def)
      with show_frame(1) [OF a] show_frame(1) [OF b] show ?thesis by simp
    next
      case False
      with show_frame(1) [OF a] show_frame(1) [OF b]
      have "sheetPromises w j = Some p" "sheetPromises w k = Some p" by simp_all
      with inv show ?thesis by (auto simp add: promises_inv_def)
    qed
  qed
next
  case (Hide i r)
  from inv show ?thesis
    unfolding Hide promises_inv_def step.simps hide_frame(2)
    by (meson hide_frame(1))
qed (use inv in \<open>auto simp add: promises_inv_def SheetManager_register_def mountProvider_def
       unmountProvider_def createRef_def registerSheetInstance_def unregisterSheetInstance_def
       updateSheetProps_def tick_frame Let_def split: option.splits member.splits if_splits\<close>)

lemma promises_inv_run: "promises_inv w \<Longrightarrow> promises_inv (run es w)"
  by (induction es arbitrary: w) (simp_all add: promises_inv_step)

lemma orphaned_step: "orphaned p w \<Longrightarrow> orphaned p (step e w)"
  unfolding orphaned_def
  using step_frame [where e = e and w = w] by (metis less_le_trans nat_neq_iff)

lemma orphaned_run: "orphaned p w \<Longrightarrow> orphaned p (run es w)"
  by (induction es arbitrary: w) (simp_all add: orphaned_step)

lemma hide_orphaned:
  "orphaned p w \<Longrightarrow> promises (SheetManager_hide j r w) p = promises w p"
  by (auto simp add: orphaned_def SheetManager_hide_def SheetManager_hide_outcome_def
      closeSheet_def closeSheet_try_def handle_close_def resolve_def reject_def settle_def
      js_get_def Let_def split: option.splits closer.splits member.splits sum.splits if_splits)

subsection \<open>A second show\<close>

text \<open>
  C3, as the code has it. The promise map is a map, so it holds at most one pair per
  identifier. In a world reached from the initial one, let \<open>i\<close> have the pair of a
  promise \<open>p1\<close> in the promise map, and let \<open>i\<close> still be in the directory or in the
  registry, so that \<^verbatim>\<open>show(i)\<close> passes the registration check. Then a second
  \<^verbatim>\<open>show(i)\<close> returns a new pending promise \<open>p2\<close>, different from \<open>p1\<close>, and stores its
  pair for \<open>i\<close> in place of the pair of \<open>p1\<close>, which is in the map no longer; \<open>p1\<close> is
  left as it was, and whatever happens afterwards, no \<^verbatim>\<open>hide\<close> changes the state of
  \<open>p1\<close>: it neither resolves nor rejects it.
\<close>

theorem second_show_orphans_first:
  assumes "w = run es (initial_world h)"
      and "sheetPromises w i = Some p1"
      and "sheets w i \<noteq> None \<or> registeredSheets w i \<noteq> None"
      and "contextSheetOpener w = Some OpenSheet"
  shows "let p2 = fst (SheetManager_show i ps w); w' = snd (SheetManager_show i ps w)
         in p2 \<noteq> p1 \<and> sheetPromises w' i = Some p2 \<and> promises w' p2 = Pending \<and>
            promises w' p1 = promises w p1 \<and>
            (\<forall>j. sheetPromises w' j \<noteq> Some p1) \<and>
            (\<forall>es' j r. promises (SheetManager_hide j r (run es' w')) p1 =
                        promises (run es' w') p1)"
proof -
  define w' where "w' = snd (SheetManager_show i ps w)"
  have inv: "promises_inv w"
    unfolding assms(1) by (rule promises_inv_run) (rule promises_inv_initial)
  then have lt: "p1 < next_promise w" and only: "\<And>j. sheetPromises w j = Some p1 \<Longrightarrow> j = i"
    using assms(2) by (auto simp add: promises_inv_def)
  have sh: "fst (SheetManager_show i ps w) = next_promise w"
    "sheetPromises w' = (sheetPromises w)(i \<mapsto> next_promise w)"
    "promises w' = (promises w)(next_promise w := Pending)"
    "next_promise w' = Suc (next_promise w)"
    using assms(3,4)
    by (auto simp add: w'_def SheetManager_show_def openSheet_def new_promise_def setTimeout_def
        createRef_def js_get_def Let_def split: option.splits member.splits if_splits)
  have orph: "orphaned p1 w'"
    using lt only by (auto simp add: orphaned_def sh)
  have "promises (SheetManager_hide j r (run es' w')) p1 = promises (run es' w') p1" for es' j r
    by (rule hide_orphaned) (rule orphaned_run [OF orph])
  then show ?thesis
    unfolding Let_def w'_def [symmetric] using lt orph by (auto simp add: sh orphaned_def)
qed

theorem second_show_orphans_first_witness:
  "sheetPromises example_shown ''s1'' = Some 0 \<and>
   registeredSheets example_shown ''s1'' = Some ''F'' \<and>
   contextSheetOpener example_shown = Some OpenSheet \<and>
   fst (SheetManager_show ''s1'' Undefined example_shown) = 1 \<and>
   sheetPromises (snd (SheetManager_show ''s1'' Undefined example_shown)) ''s1'' = Some 1 \<and>
   promises (snd (SheetManager_show ''s1'' Undefined example_shown)) 0 = Pending \<and>
   promises (SheetManager_hide ''s1'' (Number 5)
              (snd (SheetManager_show ''s1'' Undefined example_shown))) 0 = Pending \<and>
   promises (SheetManager_hide ''s1'' (Number 5)
              (snd (SheetManager_show ''s1'' Undefined example_shown))) 1 =
     Fulfilled (Number 5)"
proof -
  have r: "example_shown =
             run [Register ''s1'' ''F'', MountProvider, UseRef, RegisterSheetInstance ''s1'' 0,
                  SetHandle 0 (Some example_unit),
                  Show ''s1'' (Object [(''payload'', Object [(''x'', Number 1)])])]
               (initial_world example_host)"
    by (rule example_shown_def)
  have g: "sheetPromises example_shown ''s1'' = Some 0"
          "sheets example_shown ''s1'' \<noteq> None \<or> registeredSheets example_shown ''s1'' \<noteq> None"
          "contextSheetOpener example_shown = Some OpenSheet"
    by (simp_all add: example_shown_fields)
  note h = r g
  note t = second_show_orphans_first [OF h, of Undefined]
  have p2: "fst (SheetManager_show ''s1'' Undefined example_shown) = 1"
    using show_stores_pending [OF h(4,3), of Undefined] by (simp add: example_shown_fields)
  from t have never:
    "promises (SheetManager_hide ''s1'' (Number 5)
       (run [] (snd (SheetManager_show ''s1'' Undefined example_shown)))) 0 =
     promises (run [] (snd (SheetManager_show ''s1'' Undefined example_shown))) 0"
    unfolding Let_def by blast
  have closer: "contextSheetCloser (snd (SheetManager_show ''s1'' Undefined example_shown)) =
                  Some CloseSheet"
    by (simp add: SheetManager_show_def openSheet_def new_promise_def setTimeout_def Let_def
        js_get_def example_shown_fields)
  have dir: "sheets (snd (SheetManager_show ''s1'' Undefined example_shown)) ''s1'' \<noteq> None"
    using show_stores_pending [OF h(4,3), of Undefined] by auto
  from t p2 have st: "sheetPromises (snd (SheetManager_show ''s1'' Undefined example_shown)) ''s1'' = Some 1"
    "promises (snd (SheetManager_show ''s1'' Undefined example_shown)) 1 = Pending"
    "promises (snd (SheetManager_show ''s1'' Undefined example_shown)) 0 = Pending"
    unfolding Let_def by (simp_all add: example_shown_fields)
  have "promises (SheetManager_hide ''s1'' (Number 5)
          (snd (SheetManager_show ''s1'' Undefined example_shown))) 1 = Fulfilled (Number 5)"
    using hide_of_own_pair [OF closer dir st(1,2)] by simp
  then show ?thesis
    using h(2,4) p2 st never by (simp add: example_shown_fields)
qed

text \<open>
  C3, as the claim has it, fails where the identifier with the pending promise is no
  longer in the directory and never was in the registry: the second \<^verbatim>\<open>show\<close> is
  rejected as unregistered before it reaches the promise map, and the earlier pair
  stays.
\<close>

theorem second_show_overwrites_counterexample:
  "sheetPromises example_orphan_world ''x'' = Some 0 \<and>
   promises example_orphan_world 0 = Pending \<and>
   fst (SheetManager_show ''x'' Undefined example_orphan_world) = 1 \<and>
   promises (snd (SheetManager_show ''x'' Undefined example_orphan_world)) 1 =
     Rejected (String (''Sheet with id '' @ [CHR 0x22] @ ''x'' @ [CHR 0x22] @
                       '' is not registered.'')) \<and>
   sheetPromises (snd (SheetManager_show ''x'' Undefined example_orphan_world)) ''x'' = Some 0 \<and>
   sheetPromises (snd (SheetManager_show ''x'' Undefined example_orphan_world)) ''x'' \<noteq>
     Some (fst (SheetManager_show ''x'' Undefined example_orphan_world))"
  by (simp add: example_orphan_world_def manager_defs or_empty_def not_registered_msg_def)

subsection \<open>show while the handle stays unavailable\<close>

lemma tick_single:
  "timers w = [(d, cb)] \<Longrightarrow>
     tick w = run_timer cb (w\<lparr> timers := [], now := max (now w) d \<rparr>)"
  by (simp add: tick_def)

lemma open_attempt_without_handle:
  assumes "handle_unavailable snapshot i w"
  shows "run_timer (OpenAttempt i snapshot p) w =
           w\<lparr> timers := timers w @ [(now w + 100, OpenRetry i snapshot p)] \<rparr>"
  using assms
  by (simp add: handle_unavailable_def current_def setTimeout_def Let_def split: option.splits)

lemma open_retry_without_handle:
  assumes "handle_unavailable snapshot i w" and "promises w p = Pending"
  shows "run_timer (OpenRetry i snapshot p) w =
           w\<lparr> promises := (promises w)(p := Rejected (ref_not_available_msg i)) \<rparr>"
  using assms
  by (simp add: handle_unavailable_def current_def reject_def settle_def Let_def
      split: option.splits)

text \<open>The synchronous part of \<^verbatim>\<open>show\<close> for a registered identifier.\<close>

lemma show_registered:
  assumes "contextSheetOpener w = Some OpenSheet" and "registeredSheets w i \<noteq> None"
  shows "SheetManager_show i ps w =
     (next_promise w,
      (case js_get (host w) (sheets w) i of
         Absent \<Rightarrow>
           w\<lparr> sheets := (sheets w)(i \<mapsto>
                \<lparr> sheetId = i, ref = Some (next_ref w), props = or_empty ps,
                  isOpen = Some True \<rparr>),
              refs := (refs w)(next_ref w := None), next_ref := Suc (next_ref w) \<rparr>
       | existingSheet \<Rightarrow>
           w\<lparr> sheets := (sheets w)(i \<mapsto>
                \<lparr> sheetId = i, ref = member_ref existingSheet, props = or_empty ps,
                  isOpen = Some True \<rparr>) \<rparr>)
      \<lparr> promises := (promises w)(next_promise w := Pending),
        next_promise := Suc (next_promise w),
        sheetPromises := (sheetPromises w)(i \<mapsto> next_promise w),
        timers := timers w @ [(now w + 50, OpenAttempt i (sheets w) (next_promise w))] \<rparr>)"
  using assms
  by (auto simp add: SheetManager_show_def openSheet_def new_promise_def setTimeout_def
      createRef_def js_get_def Let_def split: option.splits member.splits if_splits)

text \<open>
  C6. Let the provider be mounted and \<open>i\<close> be registered; \<^verbatim>\<open>show(i)\<close> returns the
  promise \<open>p\<close>. The call leaves \<open>p\<close> pending, leaves the directory with an entry of \<open>i\<close>
  that has \<open>isOpen = true\<close>, and sets one timer of 50 ms. Whenever that timer fires and
  finds no handle, it does nothing but set one more timer, of 100 ms: the one retry.
  Whenever the retry fires and finds no handle, it does nothing but reject \<open>p\<close> with
  \<^verbatim>\<open>Failed to open sheet "<i>". Ref is not available.\<close>; it sets no further timer and
  does not touch the directory. From a world without other pending timers and without
  a handle for \<open>i\<close>, the whole course is: after the first timer, 50 ms later, \<open>p\<close> is
  pending and the retry is the only timer; after the retry, 150 ms after the call, \<open>p\<close>
  is rejected with that message, no timer is left, and the entry of \<open>i\<close> is in the
  directory with \<open>isOpen = true\<close> still.
\<close>

theorem show_without_handle_rejects_after_retry:
  assumes "contextSheetOpener w = Some OpenSheet"
      and "registeredSheets w i \<noteq> None"
  shows "let p = fst (SheetManager_show i ps w);
             w1 = snd (SheetManager_show i ps w);
             w2 = tick w1;
             w3 = tick w2
         in promises w1 p = Pending \<and>
            (\<exists>e. sheets w1 i = Some e \<and> isOpen e = Some True) \<and>
            timers w1 = timers w @ [(now w + 50, OpenAttempt i (sheets w) p)] \<and>
            (\<forall>wa. handle_unavailable (sheets w) i wa \<longrightarrow>
               run_timer (OpenAttempt i (sheets w) p) wa =
                 wa\<lparr> timers := timers wa @ [(now wa + 100, OpenRetry i (sheets w) p)] \<rparr>) \<and>
            (\<forall>wb. handle_unavailable (sheets w) i wb \<longrightarrow> promises wb p = Pending \<longrightarrow>
               run_timer (OpenRetry i (sheets w) p) wb =
                 wb\<lparr> promises := (promises wb)(p :=
                        Rejected (String (''Failed to open sheet '' @ [CHR 0x22] @ i @
                                          [CHR 0x22] @ ''. Ref is not available.''))) \<rparr>) \<and>
            (timers w = [] \<longrightarrow> handle_unavailable (sheets w) i w \<longrightarrow>
               promises w2 p = Pending \<and> now w2 = now w + 50 \<and>
               timers w2 = [(now w + 150, OpenRetry i (sheets w) p)] \<and>
               promises w3 p =
                 Rejected (String (''Failed to open sheet '' @ [CHR 0x22] @ i @ [CHR 0x22] @
                                   ''. Ref is not available.'')) \<and>
               now w3 = now w + 150 \<and> timers w3 = [] \<and>
               sheets w3 = sheets w1 \<and> (\<exists>e. sheets w3 i = Some e \<and> isOpen e = Some True))"
proof -
  define p where "p = next_promise w"
  define w1 where "w1 = snd (SheetManager_show i ps w)"
  define w2 where "w2 = tick w1"
  define w3 where "w3 = tick w2"
  note sh = show_registered [OF assms, of ps]
  have fst_p: "fst (SheetManager_show i ps w) = p" by (simp add: sh p_def)
  have w1: "promises w1 p = Pending" "now w1 = now w"
    "\<exists>e. sheets w1 i = Some e \<and> isOpen e = Some True"
    "timers w1 = timers w @ [(now w + 50, OpenAttempt i (sheets w) p)]"
    "host w1 = host w"
    by (auto simp add: w1_def p_def sh split: member.splits)
  have general:
    "\<forall>wa. handle_unavailable (sheets w) i wa \<longrightarrow>
       run_timer (OpenAttempt i (sheets w) p) wa =
         wa\<lparr> timers := timers wa @ [(now wa + 100, OpenRetry i (sheets w) p)] \<rparr>"
    "\<forall>wb. handle_unavailable (sheets w) i wb \<longrightarrow> promises wb p = Pending \<longrightarrow>
       run_timer (OpenRetry i (sheets w) p) wb =
         wb\<lparr> promises := (promises wb)(p := Rejected (ref_not_available_msg i)) \<rparr>"
    using open_attempt_without_handle open_retry_without_handle by blast+
  have course:
    "promises w2 p = Pending \<and> now w2 = now w + 50 \<and>
     timers w2 = [(now w + 150, OpenRetry i (sheets w) p)] \<and>
     promises w3 p = Rejected (ref_not_available_msg i) \<and>
     now w3 = now w + 150 \<and> timers w3 = [] \<and>
     sheets w3 = sheets w1 \<and> (\<exists>e. sheets w3 i = Some e \<and> isOpen e = Some True)"
    if quiet: "timers w = []" and nh: "handle_unavailable (sheets w) i w"
  proof -
    have t1: "timers w1 = [(now w + 50, OpenAttempt i (sheets w) p)]"
      using w1(4) quiet by simp
    have nh1: "handle_unavailable (sheets w) i w1"
      using nh
      by (auto simp add: handle_unavailable_def current_def js_get_def w1_def sh
          split: option.splits member.splits if_splits)
    define w1' where "w1' = w1\<lparr> timers := [], now := max (now w1) (now w + 50) \<rparr>"
    have nh1': "handle_unavailable (sheets w) i w1'"
      using nh1 by (simp add: handle_unavailable_def current_def w1'_def split: option.splits)
    have "w2 = run_timer (OpenAttempt i (sheets w) p) w1'"
      unfolding w2_def w1'_def by (rule tick_single) (rule t1)
    then have w2eq: "w2 = w1'\<lparr> timers := timers w1' @ [(now w1' + 100, OpenRetry i (sheets w) p)] \<rparr>"
      using general(1) nh1' by simp
    have w2: "promises w2 p = Pending" "timers w2 = [(now w + 150, OpenRetry i (sheets w) p)]"
      "now w2 = now w + 50" "sheets w2 = sheets w1" "refs w2 = refs w1" "host w2 = host w1"
      using w1 by (simp_all add: w2eq w1'_def)
    define w2' where "w2' = w2\<lparr> timers := [], now := max (now w2) (now w + 150) \<rparr>"
    have nh2': "handle_unavailable (sheets w) i w2'"
      using nh1 w2(5,6) by (simp add: handle_unavailable_def current_def w2'_def split: option.splits)
    have p2': "promises w2' p = Pending" using w2(1) by (simp add: w2'_def)
    have "w3 = run_timer (OpenRetry i (sheets w) p) w2'"
      unfolding w3_def w2'_def by (rule tick_single) (rule w2(2))
    then have w3eq: "w3 = w2'\<lparr> promises := (promises w2')(p := Rejected (ref_not_available_msg i)) \<rparr>"
      using general(2) nh2' p2' by simp
    have w3: "promises w3 p = Rejected (ref_not_available_msg i)" "timers w3 = []"
      "now w3 = now w + 150" "sheets w3 = sheets w1"
      using w2 by (simp_all add: w3eq w2'_def)
    show ?thesis using w1 w2 w3 by simp
  qed
  show ?thesis
    unfolding Let_def fst_p w1_def [symmetric] w2_def [symmetric] w3_def [symmetric]
    using w1 general course by (simp add: ref_not_available_msg_def)
qed

theorem show_without_handle_rejects_after_retry_witness:
  "contextSheetOpener example_world_no_handle = Some OpenSheet \<and>
   registeredSheets example_world_no_handle ''s1'' \<noteq> None \<and>
   timers example_world_no_handle = [] \<and>
   handle_unavailable (sheets example_world_no_handle) ''s1'' example_world_no_handle \<and>
   fst (SheetManager_show ''s1'' Undefined example_world_no_handle) = 0 \<and>
   promises (tick (snd (SheetManager_show ''s1'' Undefined example_world_no_handle))) 0 =
     Pending \<and>
   timers (tick (snd (SheetManager_show ''s1'' Undefined example_world_no_handle))) =
     [(150, OpenRetry ''s1'' (sheets example_world_no_handle) 0)] \<and>
   promises (tick (tick (snd (SheetManager_show ''s1'' Undefined example_world_no_handle)))) 0 =
     Rejected (String (''Failed to open sheet '' @ [CHR 0x22] @ ''s1'' @ [CHR 0x22] @
                       ''. Ref is not available.'')) \<and>
   sheets (tick (tick (snd (SheetManager_show ''s1'' Undefined example_world_no_handle)))) ''s1'' =
     Some \<lparr> sheetId = ''s1'', ref = Some 0, props = Object [], isOpen = Some True \<rparr>"
proof -
  have h: "contextSheetOpener example_world_no_handle = Some OpenSheet"
          "registeredSheets example_world_no_handle ''s1'' \<noteq> None"
    by (simp_all add: example_world_no_handle_fields)
  have q: "timers example_world_no_handle = []"
          "handle_unavailable (sheets example_world_no_handle) ''s1'' example_world_no_handle"
    by (simp_all add: handle_unavailable_def current_def js_get_def
        example_world_no_handle_fields)
  have p: "fst (SheetManager_show ''s1'' Undefined example_world_no_handle) = 0"
    by (simp add: show_registered [OF h] example_world_no_handle_fields)
  have d: "sheets (snd (SheetManager_show ''s1'' Undefined example_world_no_handle)) ''s1'' =
             Some \<lparr> sheetId = ''s1'', ref = Some 0, props = Object [], isOpen = Some True \<rparr>"
    by (simp add: show_registered [OF h] example_world_no_handle_fields or_empty_def js_get_def)
  show ?thesis
    using h q p d show_without_handle_rejects_after_retry [OF h, of Undefined]
    unfolding Let_def by (simp add: example_world_no_handle_fields)
qed

section \<open>Properties of the presentation unit\<close>

lemma example_unit_eq:
  "example_unit =
     \<lparr> gestureEnabled = True, closeOnPressBack = True, closeOnTouchBackdrop = True,
       openAnimationDuration = 300, closeAnimationDuration = 300, isModal = True,
       isVisible = False, isClosing = False,
       rendered = \<lparr> r_isVisible = False, r_isClosing = False,
                    r_gestureEnabled = True, r_closeAnimationDuration = 300 \<rparr>,
       panResponder = \<lparr> r_isVisible = False, r_isClosing = False,
                        r_gestureEnabled = True, r_closeAnimationDuration = 300 \<rparr>,
       translateY = 800, backdropOpacity = 0,
       isDragging = False, initialDragY = 0,
       running = [], onOpen_calls = 0, onClose_calls = 0 \<rparr>"
  by (simp add: example_unit_def unit_defs)

lemma example_opening_eq:
  "example_opening = example_unit\<lparr> isVisible := True, running := [ParallelOpen 300] \<rparr>"
  by (simp add: example_opening_def example_unit_eq unit_defs)

lemma example_open_eq:
  "example_open =
     example_unit\<lparr> isVisible := True,
                    rendered := \<lparr> r_isVisible = True, r_isClosing = False,
                                  r_gestureEnabled = True, r_closeAnimationDuration = 300 \<rparr>,
                    translateY := 0, backdropOpacity := 1, onOpen_calls := 1 \<rparr>"
  by (simp add: example_open_def example_unit_eq unit_defs)

subsection \<open>open\<close>

text \<open>
  \<^verbatim>\<open>open()\<close> returns at its guard when the unit was visible or closing in the render
  that created this \<^verbatim>\<open>open\<close>.
\<close>

lemma open_noop_when_rendered_visible_or_closing:
  "r_isVisible (rendered u) \<or> r_isClosing (rendered u) \<Longrightarrow> unit_step h Open u = u"
  by (simp add: open_unit_def)

text \<open>
  C7 does not hold of the code when the second \<^verbatim>\<open>open()\<close> follows the first at once,
  before the unit has rendered again. On the freshly mounted unit the first call sets
  the unit visible and starts the opening animation. The second call is the same
  function with the same constants, \<^verbatim>\<open>isVisible\<close> false in them: it passes the guard
  and starts a second opening animation, so that the unit differs from the unit after
  one call, and the open callback runs twice, once for each animation.
\<close>

theorem open_twice_in_one_turn:
  "isVisible (unit_run example_host [Open] example_unit) \<and>
   running (unit_run example_host [Open] example_unit) = [ParallelOpen 300] \<and>
   running (unit_run example_host [Open, Open] example_unit) =
     [ParallelOpen 300, ParallelOpen 300] \<and>
   unit_run example_host [Open, Open] example_unit \<noteq> unit_run example_host [Open] example_unit \<and>
   onOpen_calls (unit_run example_host [Open, Finish 0] example_unit) = 1 \<and>
   onOpen_calls (unit_run example_host [Open, Open, Finish 0, Finish 0] example_unit) = 2 \<and>
   unit_run example_host [Open, Render, Open] example_unit =
     unit_run example_host [Open, Render] example_unit"
  by (simp add: example_unit_eq unit_defs)

subsection \<open>isOpen\<close>

text \<open>
  C10 does not hold of the code in the turn in which \<^verbatim>\<open>close()\<close> is called. On the
  open unit \<^verbatim>\<open>isOpen()\<close> is true. \<^verbatim>\<open>close()\<close> sets \<open>isClosing\<close> and starts the closing
  animation; the close callback has not run. \<^verbatim>\<open>isOpen()\<close>, called next through the
  handle, is the function of the render before \<^verbatim>\<open>close()\<close> and still returns true,
  while the closing animation runs. It returns false once the unit has rendered
  again.
\<close>

theorem isOpen_true_right_after_close:
  "handle_isOpen example_open \<and>
   isClosing (unit_run example_host [Close] example_open) \<and>
   isVisible (unit_run example_host [Close] example_open) \<and>
   running (unit_run example_host [Close] example_open) = [ParallelClose 300 800] \<and>
   onClose_calls (unit_run example_host [Close] example_open) = onClose_calls example_open \<and>
   handle_isOpen (unit_run example_host [Close] example_open) \<and>
   \<not> handle_isOpen (unit_run example_host [Close, Render] example_open)"
  by (simp add: example_open_eq example_unit_eq unit_defs)

subsection \<open>The release of a drag\<close>

text \<open>
  The \<^verbatim>\<open>close\<close> of the pan responder is the one of the first render, in which
  \<^verbatim>\<open>isVisible\<close> is false. No event changes what the pan responder holds, so on every
  unit reached from its mount this \<^verbatim>\<open>close\<close> returns at its guard, and a release past
  the threshold does nothing but end the drag.
\<close>

lemma panResponder_step: "panResponder (unit_step h e u) = panResponder u"
proof (cases e)
  case (Finish k)
  then show ?thesis by (cases "running u ! k") (simp_all add: finish_def)
qed (simp_all add: unit_defs Let_def)

lemma panResponder_run: "panResponder (unit_run h es u) = panResponder u"
  by (induction es arbitrary: u) (simp_all add: panResponder_step)

lemma release_past_threshold_of_reached_unit:
  assumes "u = unit_run h es (mount_ActionSheet h ge cb ct od cd im)"
      and "dy g > SCREEN_HEIGHT_times_0_2 h \<or> vy g > 0.5"
  shows "onPanResponderRelease h g u = u\<lparr> isDragging := False \<rparr>"
proof -
  have "\<not> r_isVisible (panResponder u)"
    unfolding assms(1) panResponder_run by (simp add: mount_ActionSheet_def)
  then show ?thesis
    using assms(2) by (auto simp add: onPanResponderRelease_def close_def Let_def)
qed




end
